theory Spec2Isabelle
  imports Complex_Main
begin

section \<open>The Magnetodynamics2D Elmer writer (\<open>magnetodynamic2D_writer.py\<close>)\<close>

text \<open>
  The class \<open>MgDyn2Dwriter\<close> reads a FEM model through the general Elmer writer
  (\<open>self.write\<close>) and calls that writer to emit directives. Every method is modelled as a
  function from the sink state before the call to an outcome: \<open>Ok\<close> with the sink after a
  normal return, or \<open>Raised\<close> with the exception and the sink as it was when the exception
  left the method (what had been written before stays written).

  Python floats are modelled by their exact rational values (type \<open>rat\<close>); NaN and the
  infinities have no counterpart here.
\<close>

subsection \<open>Exceptions\<close>

text \<open>
  The source raises \<open>general_writer.WriteError(message)\<close> only; indexing a material
  dictionary at an absent key raises Python's \<open>KeyError\<close>, and \<open>float\<close> of a string that is
  not a number raises \<open>ValueError\<close>.
\<close>

datatype error = WriteError string | KeyError string | ValueError string

subsection \<open>The model objects\<close>

text \<open>A FreeCAD quantity: \<open>.Value\<close> is its number, \<open>Unit\<close> its unit.\<close>

record quantity =
  Value :: rat
  Unit :: string

text \<open>
  Attributes shared by the document objects the writer reads. \<open>References\<close> is FreeCAD's
  list of pairs (referenced object, names of its sub-elements); the source tests it for
  emptiness and otherwise reads \<open>obj.References[0][1]\<close>, the names of the first pair.
\<close>

record document_object =
  Name :: string
  Label :: string
  References :: "(string \<times> string list) list"

record equation = document_object +
  IsHarmonic :: bool
  AngularFrequency :: quantity
  Stabilize :: bool
  CalculateCurrentDensity :: bool
  CalculateElectricField :: bool
  CalculateElementalFields :: bool
  CalculateHarmonicLoss :: bool
  CalculateJouleHeating :: bool
  CalculateMagneticFieldStrength :: bool
  CalculateMaxwellStress :: bool
  CalculateNodalFields :: bool
  CalculateNodalForces :: bool
  CalculateNodalHeating :: bool

text \<open>\<open>App::MaterialObject\<close>: \<open>obj.Material\<close> is a dictionary from property names to strings.\<close>

record material_object = document_object +
  Material :: "string \<rightharpoonup> string"

text \<open>\<open>Fem::ConstraintCurrentDensity\<close>.\<close>

record current_density = document_object +
  CurrentDensity :: quantity

text \<open>
  \<open>Fem::ConstraintElectrostaticPotential\<close>. \<open>Potential\<close> is \<open>None\<close> when the object has no
  such attribute (\<open>hasattr(obj, "Potential")\<close> is false).
\<close>

record potential = document_object +
  PotentialEnabled :: bool
  Potential :: "quantity option"
  ElectricInfinity :: bool

subsection \<open>Directive values and the sink\<close>

text \<open>A value written to the solver input: a boolean, a number, a string or a \<open>sifio.FileAttr\<close>.\<close>

datatype attr = Bool bool | Num rat | Str string | FileAttr string

datatype section_kind = MATERIAL | BODY_FORCE | BOUNDARY_CONDITION | EQUATION

type_synonym directive = "section_kind \<times> string \<times> string \<times> attr"

text \<open>
  The sink: the sequence of directive calls made on the writer, in call order, each with its
  section, the body name, the key and the value; and the set of objects marked handled,
  by object name.
\<close>

record sink =
  directives :: "directive list"
  handledObjects :: "string set"

datatype outcome = Ok sink | Raised error sink

text \<open>Sequencing of statements: an exception skips what follows.\<close>

fun and_then :: "outcome \<Rightarrow> (sink \<Rightarrow> outcome) \<Rightarrow> outcome" where
  "and_then (Ok s) f = f s"
| "and_then (Raised e s) f = Raised e s"

subsection \<open>What the source file reads from outside\<close>

text \<open>
  The general writer \<open>self.write\<close> (module \<open>femsolver.elmer.writer\<close>), FreeCAD's \<open>Units\<close> and
  Python's \<open>float\<close> are not part of this file. Their read-only operations are parameters:
  \<^item> \<open>getBodyMaterial name\<close>: the material of a body, \<open>None\<close> for Python's \<open>None\<close>;
  \<^item> \<open>getAllBodies\<close>: the body names of the model;
  \<^item> \<open>materialObjects\<close>, \<open>currentDensities\<close>, \<open>potentials\<close>: the results of
    \<open>getMember("App::MaterialObject")\<close>, \<open>getMember("Fem::ConstraintCurrentDensity")\<close> and
    \<open>getMember("Fem::ConstraintElectrostaticPotential")\<close>, in model order;
  \<^item> \<open>convert value dimension\<close> and \<open>getFromUi value unit dimension\<close>: unit conversion;
  \<^item> \<open>getValueAs q unit\<close>: \<open>q.getValueAs(unit)\<close> of a quantity;
  \<^item> \<open>float_of_str\<close>: Python's \<open>float\<close> on a string, \<open>None\<close> where it raises \<open>ValueError\<close>;
  \<^item> \<open>createNonlinearSolver\<close>: the solver section the general writer starts from.
\<close>

record writer =
  getBodyMaterial :: "string \<Rightarrow> material_object option"
  getAllBodies :: "string list"
  materialObjects :: "material_object list"
  currentDensities :: "current_density list"
  potentials :: "potential list"
  convert :: "string \<Rightarrow> string \<Rightarrow> rat"
  getFromUi :: "rat \<Rightarrow> string \<Rightarrow> string \<Rightarrow> rat"
  getValueAs :: "quantity \<Rightarrow> string \<Rightarrow> rat"
  float_of_str :: "string \<Rightarrow> rat option"
  createNonlinearSolver :: "equation \<Rightarrow> (string \<rightharpoonup> attr)"

text \<open>
  Modelled from the spec: the writer's output methods \<open>material\<close>, \<open>bodyForce\<close>, \<open>boundary\<close>,
  \<open>equation\<close> (section 6, \<open>write(group, key, directiveName, value)\<close>) are missing from the
  sources; each call is recorded at the end of the sink's directive sequence.
\<close>

definition write_directive :: "section_kind \<Rightarrow> string \<Rightarrow> string \<Rightarrow> attr \<Rightarrow> sink \<Rightarrow> sink" where
  "write_directive sec name key v s = s\<lparr>directives := directives s @ [(sec, name, key, v)]\<rparr>"

definition write_material :: "string \<Rightarrow> string \<Rightarrow> attr \<Rightarrow> sink \<Rightarrow> sink" where
  "write_material = write_directive MATERIAL"

definition write_bodyForce :: "string \<Rightarrow> string \<Rightarrow> attr \<Rightarrow> sink \<Rightarrow> sink" where
  "write_bodyForce = write_directive BODY_FORCE"

definition write_boundary :: "string \<Rightarrow> string \<Rightarrow> attr \<Rightarrow> sink \<Rightarrow> sink" where
  "write_boundary = write_directive BOUNDARY_CONDITION"

definition write_equation :: "string \<Rightarrow> string \<Rightarrow> attr \<Rightarrow> sink \<Rightarrow> sink" where
  "write_equation = write_directive EQUATION"

text \<open>
  Modelled from the spec: the writer's method \<open>handled\<close> (section 6, \<open>markHandled\<close>: "informs
  the orchestrator this constraint has been consumed"; section 4.4: "idempotent marking") is
  missing from the sources; it adds the object to the set of handled objects.
\<close>

definition handled :: "'a document_object_scheme \<Rightarrow> sink \<Rightarrow> sink" where
  "handled obj s = s\<lparr>handledObjects := insert (Name obj) (handledObjects s)\<rparr>"

subsection \<open>Python's \<open>round(x, ndigits)\<close>\<close>

text \<open>
  \<open>round\<close> on a float rounds the exact value of the float to \<open>ndigits\<close> decimals, a tie
  going to the even neighbour. The result is kept as the exact decimal.
\<close>

definition py_round :: "rat \<Rightarrow> nat \<Rightarrow> rat" where
  "py_round x ndigits =
     (let p = 10 ^ ndigits;
          y = x * p;
          f = \<lfloor>y\<rfloor>;
          d = y - of_int f;
          n = (if d < 1 / 2 then f else if 1 / 2 < d then f + 1 else if even f then f else f + 1)
      in of_int n / p)"

subsection \<open>Loops over a sequence\<close>

text \<open>
  \<open>for x in xs: body\<close>, the body threading the sink; an exception raised by the body leaves
  the loop at once.
\<close>

fun for_each :: "'a list \<Rightarrow> ('a \<Rightarrow> sink \<Rightarrow> outcome) \<Rightarrow> sink \<Rightarrow> outcome" where
  "for_each [] body s = Ok s"
| "for_each (x # xs) body s = and_then (body x s) (for_each xs body)"

subsection \<open>\<open>getMagnetodynamic2DSolverPost\<close>\<close>

text \<open>The solver section \<open>s\<close> is a dictionary from directive names to values.\<close>

definition getMagnetodynamic2DSolverPost :: "writer \<Rightarrow> equation \<Rightarrow> (string \<rightharpoonup> attr)" where
  "getMagnetodynamic2DSolverPost w equation =
     (let s = createNonlinearSolver w equation;
          s = s(''Equation'' \<mapsto> Str ''MgDyn2DPost'');
          s = s(''Exec Solver'' \<mapsto> Str ''Always'');
          s = s(''Procedure'' \<mapsto> FileAttr ''MagnetoDynamics/MagnetoDynamicsCalcFields'');
          s = (if IsHarmonic equation
               then s(''Angular Frequency'' \<mapsto> Num (Value (AngularFrequency equation))) else s);
          s = s(''Potential Variable'' \<mapsto> Str ''Potential'');
          s = (if CalculateCurrentDensity equation = True
               then s(''Calculate Current Density'' \<mapsto> Bool True) else s);
          s = (if CalculateElectricField equation = True
               then s(''Calculate Electric Field'' \<mapsto> Bool True) else s);
          s = (if CalculateElementalFields equation = False
               then s(''Calculate Elemental Fields'' \<mapsto> Bool False) else s);
          s = (if CalculateHarmonicLoss equation = True
               then s(''Calculate Harmonic Loss'' \<mapsto> Bool True) else s);
          s = (if CalculateJouleHeating equation = True
               then s(''Calculate Joule Heating'' \<mapsto> Bool True) else s);
          s = (if CalculateMagneticFieldStrength equation = True
               then s(''Calculate Magnetic Field Strength'' \<mapsto> Bool True) else s);
          s = (if CalculateMaxwellStress equation = True
               then s(''Calculate Maxwell Stress'' \<mapsto> Bool True) else s);
          s = (if CalculateNodalFields equation = False
               then s(''Calculate Nodal Fields'' \<mapsto> Bool False) else s);
          s = (if CalculateNodalForces equation = True
               then s(''Calculate Nodal Forces'' \<mapsto> Bool True) else s);
          s = (if CalculateNodalHeating equation = True
               then s(''Calculate Nodal Heating'' \<mapsto> Bool True) else s);
          s = s(''Optimize Bandwidth'' \<mapsto> Bool True);
          s = s(''Stabilize'' \<mapsto> Bool (Stabilize equation))
      in s)"

subsection \<open>\<open>handleMagnetodynamic2DMaterial\<close>\<close>

definition UnassignedBodyError :: "string \<Rightarrow> error" where
  "UnassignedBodyError name =
     WriteError (''The body '' @ name @ '' is not referenced in any material.\<newline>\<newline>'')"

definition MissingConductivityError :: error where
  "MissingConductivityError =
     WriteError ''The electrical conductivity must be specified for all materials.\<newline>\<newline>''"

definition MissingPermeabilityError :: error where
  "MissingPermeabilityError =
     WriteError ''The relative permeability must be specified for all materials.\<newline>\<newline>''"

text \<open>The body of the first loop: the check that the body has a material.\<close>

definition check_body_material :: "writer \<Rightarrow> string \<Rightarrow> sink \<Rightarrow> outcome" where
  "check_body_material w name s =
     (if getBodyMaterial w name = None then Raised (UnassignedBodyError name) s else Ok s)"

text \<open>
  The body of the inner loop, for the material dictionary \<open>m\<close> and the body \<open>name\<close>. The two
  membership tests come first; \<open>m["Name"]\<close> is an index access, and the two \<open>float\<close> calls
  take the strings of the dictionary. (The \<open>Console.PrintMessage\<close> before each raise writes to
  the console only.)
\<close>

definition material_body :: "writer \<Rightarrow> (string \<rightharpoonup> string) \<Rightarrow> string \<Rightarrow> sink \<Rightarrow> outcome" where
  "material_body w m name s =
     (case m ''ElectricalConductivity'' of
        None \<Rightarrow> Raised MissingConductivityError s
      | Some ec \<Rightarrow>
     (case m ''RelativePermeability'' of
        None \<Rightarrow> Raised MissingPermeabilityError s
      | Some rp \<Rightarrow>
     (case m ''Name'' of
        None \<Rightarrow> Raised (KeyError ''Name'') s
      | Some n \<Rightarrow>
        let s1 = write_material name ''Name'' (Str n) s;
            conductivity = convert w ec ''T^3*I^2/(L^3*M)'';
            conductivity = py_round conductivity 10;
            s2 = write_material name ''Electric Conductivity'' (Num conductivity) s1
        in (case float_of_str w rp of
              None \<Rightarrow> Raised (ValueError rp) s2
            | Some permeability \<Rightarrow>
              let s3 = write_material name ''Relative Permeability'' (Num permeability) s2
              in (case m ''RelativePermittivity'' of
                    None \<Rightarrow> Ok s3
                  | Some e \<Rightarrow>
                    (case float_of_str w e of
                       None \<Rightarrow> Raised (ValueError e) s3
                     | Some permittivity \<Rightarrow>
                       Ok (write_material name ''Relative Permittivity'' (Num permittivity) s3)))))))"

text \<open>\<open>refs\<close>: the names of the first reference, or all bodies when there is no reference.\<close>

definition material_refs :: "writer \<Rightarrow> material_object \<Rightarrow> string list" where
  "material_refs w obj = (case References obj of r # _ \<Rightarrow> snd r | [] \<Rightarrow> getAllBodies w)"

text \<open>The body of the loop over the material objects.\<close>

definition material_object_body :: "writer \<Rightarrow> string list \<Rightarrow> material_object \<Rightarrow> sink \<Rightarrow> outcome" where
  "material_object_body w bodies obj s =
     (let m = Material obj;
          refs = material_refs w obj
      in for_each (filter (\<lambda>n. n \<in> set bodies) refs) (material_body w m) s)"

definition handleMagnetodynamic2DMaterial :: "writer \<Rightarrow> string list \<Rightarrow> sink \<Rightarrow> outcome" where
  "handleMagnetodynamic2DMaterial w bodies s =
     and_then (for_each bodies (check_body_material w) s)
       (for_each (materialObjects w) (material_object_body w bodies))"

subsection \<open>\<open>_outputMagnetodynamic2DBodyForce\<close> and \<open>handleMagnetodynamic2DBodyForces\<close>\<close>

definition ZeroSourceError :: error where
  "ZeroSourceError = WriteError ''The current density must not be zero!''"

definition MissingSourceError :: error where
  "MissingSourceError =
     WriteError ''The Magnetodynamic2D equation needs at least one CurrentDensity constraint.''"

definition AmbiguousSourceAssignmentError :: error where
  "AmbiguousSourceAssignmentError =
     WriteError (''Several current density constraints found without reference to a body.\<newline>'' @
                 ''Please set a body for each current density constraint.'')"

definition outputMagnetodynamic2DBodyForce :: "writer \<Rightarrow> current_density \<Rightarrow> string \<Rightarrow> sink \<Rightarrow> outcome" where
  "outputMagnetodynamic2DBodyForce w obj name s =
     (let currentDensity =
            getFromUi w (getValueAs w (CurrentDensity obj) ''A/m^2'') ''A/m^2'' ''I/L^2'';
          currentDensity = py_round currentDensity 10
      in if currentDensity = 0 then Raised ZeroSourceError s
         else Ok (write_bodyForce name ''Current Density'' (Num currentDensity) s))"

text \<open>
  The body of the loop over \<open>currentDensities\<close>. The branch with references calls
  \<open>handled\<close> itself; the call after the \<open>if\<close> is reached from both branches.
\<close>

definition bodyForces_body :: "writer \<Rightarrow> string list \<Rightarrow> current_density \<Rightarrow> sink \<Rightarrow> outcome" where
  "bodyForces_body w bodies obj s =
     and_then
       (case References obj of
          r # _ \<Rightarrow>
            and_then (for_each (snd r) (outputMagnetodynamic2DBodyForce w obj) s)
              (\<lambda>s. Ok (handled obj s))
        | [] \<Rightarrow>
            if length (currentDensities w) = 1
            then for_each bodies (outputMagnetodynamic2DBodyForce w obj) s
            else Raised AmbiguousSourceAssignmentError s)
       (\<lambda>s. Ok (handled obj s))"

definition handleMagnetodynamic2DBodyForces :: "writer \<Rightarrow> string list \<Rightarrow> sink \<Rightarrow> outcome" where
  "handleMagnetodynamic2DBodyForces w bodies s =
     (if length (currentDensities w) = 0 then Raised MissingSourceError s
      else for_each (currentDensities w) (bodyForces_body w bodies) s)"

subsection \<open>\<open>handleMagnetodynamic2DBndConditions\<close>\<close>

text \<open>The body of the loop over the names of a potential constraint.\<close>

definition bndConditions_name :: "writer \<Rightarrow> potential \<Rightarrow> string \<Rightarrow> sink \<Rightarrow> outcome" where
  "bndConditions_name w obj name s =
     (let s = (if Label obj \<noteq> [] then write_boundary name ''! FreeCAD Name'' (Str (Label obj)) s
               else s);
          s = (if PotentialEnabled obj
               then (case Potential obj of
                       Some q \<Rightarrow> write_boundary name ''Potential'' (Num (getValueAs w q ''V'')) s
                     | None \<Rightarrow> s)
               else s);
          s = (if ElectricInfinity obj then write_boundary name ''Infinity BC'' (Bool True) s
               else s)
      in Ok s)"

definition bndConditions_body :: "writer \<Rightarrow> potential \<Rightarrow> sink \<Rightarrow> outcome" where
  "bndConditions_body w obj s =
     (case References obj of
        r # _ \<Rightarrow> and_then (for_each (snd r) (bndConditions_name w obj) s) (\<lambda>s. Ok (handled obj s))
      | [] \<Rightarrow> Ok s)"

definition handleMagnetodynamic2DBndConditions :: "writer \<Rightarrow> sink \<Rightarrow> outcome" where
  "handleMagnetodynamic2DBndConditions w s = for_each (potentials w) (bndConditions_body w) s"

subsection \<open>\<open>handleMagnetodynamic2DEquation\<close>\<close>

definition ZeroFrequencyError :: error where
  "ZeroFrequencyError = WriteError ''The angular frequency must not be zero.\<newline>\<newline>''"

text \<open>The body of the loop over \<open>bodies\<close>.\<close>

definition equation_body :: "equation \<Rightarrow> string \<Rightarrow> sink \<Rightarrow> outcome" where
  "equation_body equation b s =
     (if IsHarmonic equation \<and> Value (AngularFrequency equation) = 0
      then Raised ZeroFrequencyError s
      else
        let s = write_equation b ''Name'' (Str (Name equation)) s;
            frequency = Value (AngularFrequency equation)
        in Ok (write_equation b ''Angular Frequency'' (Num frequency) s))"

definition handleMagnetodynamic2DEquation :: "string list \<Rightarrow> equation \<Rightarrow> sink \<Rightarrow> outcome" where
  "handleMagnetodynamic2DEquation bodies equation s = for_each bodies (equation_body equation) s"

subsection \<open>Notions used to state the properties\<close>

text \<open>The sink an outcome ends in, and a sink extended by a sequence of directive calls.\<close>

definition sink_of :: "outcome \<Rightarrow> sink" where
  "sink_of r = (case r of Ok s \<Rightarrow> s | Raised e s \<Rightarrow> s)"

definition emit :: "directive list \<Rightarrow> sink \<Rightarrow> sink" where
  "emit ds s = s\<lparr>directives := directives s @ ds\<rparr>"


text \<open>The magnitude of a current density as \<open>_outputMagnetodynamic2DBodyForce\<close> fetches it.\<close>

definition magnitude :: "writer \<Rightarrow> current_density \<Rightarrow> rat" where
  "magnitude w obj = getFromUi w (getValueAs w (CurrentDensity obj) ''A/m^2'') ''A/m^2'' ''I/L^2''"


text \<open>
  The (material dictionary, body) pairs the material loops visit, in visiting order: for each
  material object in model order, the names of its effective target list that are in \<open>bodies\<close>.
\<close>

definition material_pairs :: "writer \<Rightarrow> string list \<Rightarrow> ((string \<rightharpoonup> string) \<times> string) list" where
  "material_pairs w bodies =
     concat (map (\<lambda>obj. map (\<lambda>name. (Material obj, name))
                          (filter (\<lambda>n. n \<in> set bodies) (material_refs w obj)))
              (materialObjects w))"

text \<open>
  The names a constraint refers to (those of its first reference), none when it has no
  reference; and the boundary directives of a potential constraint for one name.
\<close>

definition boundary_directives :: "writer \<Rightarrow> potential \<Rightarrow> string \<Rightarrow> directive list" where
  "boundary_directives w obj name =
     (if Label obj \<noteq> [] then [(BOUNDARY_CONDITION, name, ''! FreeCAD Name'', Str (Label obj))] else [])
     @ (case Potential obj of
          Some q \<Rightarrow> if PotentialEnabled obj
                    then [(BOUNDARY_CONDITION, name, ''Potential'', Num (getValueAs w q ''V''))] else []
        | None \<Rightarrow> [])
     @ (if ElectricInfinity obj then [(BOUNDARY_CONDITION, name, ''Infinity BC'', Bool True)] else [])"

definition reference_names :: "'a document_object_scheme \<Rightarrow> string list" where
  "reference_names obj = (case References obj of r # _ \<Rightarrow> snd r | [] \<Rightarrow> [])"


text \<open>\<open>if c: s[k] = v\<close> on a solver section.\<close>

definition assign_if :: "bool \<Rightarrow> string \<Rightarrow> attr \<Rightarrow> (string \<rightharpoonup> attr) \<Rightarrow> (string \<rightharpoonup> attr)" where
  "assign_if c k v s = (if c then s(k \<mapsto> v) else s)"

subsection \<open>Example models\<close>

text \<open>
  An empty sink, and a writer over an empty model whose unit conversions return the number
  they are given.
\<close>

definition sink0 :: sink where
  "sink0 = \<lparr>directives = [], handledObjects = {}\<rparr>"

definition writer0 :: writer where
  "writer0 =
     \<lparr>getBodyMaterial = (\<lambda>name. None), getAllBodies = [], materialObjects = [],
      currentDensities = [], potentials = [],
      convert = (\<lambda>v dim. 0), getFromUi = (\<lambda>v unit dim. v), getValueAs = (\<lambda>q unit. Value q),
      float_of_str = (\<lambda>str. None), createNonlinearSolver = (\<lambda>equation. Map.empty)\<rparr>"

definition source :: "string \<Rightarrow> (string \<times> string list) list \<Rightarrow> rat \<Rightarrow> current_density" where
  "source name refs v =
     \<lparr>Name = name, Label = name, References = refs,
      CurrentDensity = \<lparr>Value = v, Unit = ''A/m^2''\<rparr>\<rparr>"

definition equation0 :: "bool \<Rightarrow> rat \<Rightarrow> equation" where
  "equation0 harmonic frequency =
     \<lparr>Name = ''Magnetodynamic2D'', Label = ''Magnetodynamic2D'', References = [],
      IsHarmonic = harmonic, AngularFrequency = \<lparr>Value = frequency, Unit = ''1/s''\<rparr>,
      Stabilize = False,
      CalculateCurrentDensity = False, CalculateElectricField = False,
      CalculateElementalFields = True, CalculateHarmonicLoss = False,
      CalculateJouleHeating = False, CalculateMagneticFieldStrength = False,
      CalculateMaxwellStress = False, CalculateNodalFields = True,
      CalculateNodalForces = False, CalculateNodalHeating = False\<rparr>"

text \<open>
  Material objects: steel on body \<open>A\<close>, air without references (so on all bodies), a
  material dictionary without a \<open>Name\<close> entry, and one whose relative permeability is not a
  number; a writer over the bodies \<open>A\<close> and \<open>B\<close> whose \<open>getBodyMaterial\<close> returns the first
  material object whose target list has the body.
\<close>

definition material :: "string \<Rightarrow> (string \<times> string list) list \<Rightarrow> (string \<times> string) list \<Rightarrow> material_object" where
  "material name refs props = \<lparr>Name = name, Label = name, References = refs, Material = map_of props\<rparr>"

definition steel :: material_object where
  "steel = material ''Steel'' [(''Part'', [''A''])]
     [(''Name'', ''Steel''), (''ElectricalConductivity'', ''5 S/m''),
      (''RelativePermeability'', ''100'')]"

definition air :: material_object where
  "air = material ''Air'' []
     [(''Name'', ''Air''), (''ElectricalConductivity'', ''0 S/m''),
      (''RelativePermeability'', ''1''), (''RelativePermittivity'', ''1'')]"

definition nameless :: material_object where
  "nameless = material ''Nameless'' [(''Part'', [''A''])]
     [(''ElectricalConductivity'', ''5 S/m''), (''RelativePermeability'', ''100'')]"

definition iron :: material_object where
  "iron = material ''Iron'' [(''Part'', [''A''])]
     [(''Name'', ''Iron''), (''ElectricalConductivity'', ''5 S/m''),
      (''RelativePermeability'', ''high'')]"

definition material_writer :: "material_object list \<Rightarrow> writer" where
  "material_writer objs =
     writer0\<lparr>getBodyMaterial :=
               (\<lambda>name. find (\<lambda>obj. name \<in> set (case References obj of r # rs \<Rightarrow> snd r
                                                   | [] \<Rightarrow> [''A'', ''B''])) objs),
             getAllBodies := [''A'', ''B''],
             materialObjects := objs,
             convert := (\<lambda>v dim. if v = ''5 S/m'' then 5 else 0),
             float_of_str := (\<lambda>str. if str = ''100'' then Some 100
                                     else if str = ''1'' then Some 1 else None)\<rparr>"

text \<open>Potential constraints: one on two edges, one without references.\<close>

definition electrode :: potential where
  "electrode =
     \<lparr>Name = ''Potential'', Label = ''Electrode'', References = [(''Part'', [''Edge1'', ''Edge2''])],
      PotentialEnabled = True, Potential = Some \<lparr>Value = 12, Unit = ''V''\<rparr>,
      ElectricInfinity = True\<rparr>"

definition farfield :: potential where
  "farfield =
     \<lparr>Name = ''Farfield'', Label = ''Farfield'', References = [],
      PotentialEnabled = True, Potential = Some \<lparr>Value = 0, Unit = ''V''\<rparr>,
      ElectricInfinity = True\<rparr>"

section \<open>Properties\<close>

subsection \<open>Sequencing, loops and the directive sequence\<close>

lemma and_then_Ok_iff:
  "and_then r f = Ok s' \<longleftrightarrow> (\<exists>s1. r = Ok s1 \<and> f s1 = Ok s')"
  by (cases r) simp_all

lemma and_then_Raised_iff:
  "and_then r f = Raised e s' \<longleftrightarrow> r = Raised e s' \<or> (\<exists>s1. r = Ok s1 \<and> f s1 = Raised e s')"
  by (cases r) auto

lemma for_each_append:
  "for_each (xs @ ys) body s = and_then (for_each xs body s) (for_each ys body)"
proof (induction xs arbitrary: s)
  case Nil
  show ?case by simp
next
  case (Cons x xs)
  show ?case
  proof (cases "body x s")
    case (Ok s1)
    with Cons show ?thesis by simp
  next
    case (Raised e s1)
    then show ?thesis by simp
  qed
qed

lemma emit_Nil: "emit [] s = s"
  by (simp add: emit_def)

lemma emit_emit: "emit ds2 (emit ds1 s) = emit (ds1 @ ds2) s"
  by (simp add: emit_def)

lemma write_directive_emit: "write_directive sec name key v s = emit [(sec, name, key, v)] s"
  by (simp add: write_directive_def emit_def)

lemma for_each_emit:
  "(\<And>x s. x \<in> set xs \<Longrightarrow> body x s = Ok (emit (g x) s)) \<Longrightarrow>
   for_each xs body s = Ok (emit (concat (map g xs)) s)"
proof (induction xs arbitrary: s)
  case Nil
  show ?case by (simp add: emit_Nil)
next
  case (Cons x xs)
  have "body x s = Ok (emit (g x) s)"
    using Cons.prems by simp
  moreover have "for_each xs body (emit (g x) s) = Ok (emit (concat (map g xs)) (emit (g x) s))"
    using Cons.IH Cons.prems by simp
  ultimately show ?case by (simp add: emit_emit)
qed

lemma for_each_raised_source:
  "for_each xs body s = Raised e s' \<Longrightarrow> \<exists>x \<in> set xs. \<exists>s1. body x s1 = Raised e s'"
proof (induction xs arbitrary: s)
  case Nil
  then show ?case by simp
next
  case (Cons x xs)
  from Cons.prems have "body x s = Raised e s' \<or> (\<exists>s1. body x s = Ok s1 \<and> for_each xs body s1 = Raised e s')"
    by (simp add: and_then_Raised_iff)
  then show ?case
  proof
    assume "body x s = Raised e s'"
    then show ?thesis by auto
  next
    assume "\<exists>s1. body x s = Ok s1 \<and> for_each xs body s1 = Raised e s'"
    then obtain s1 where "for_each xs body s1 = Raised e s'" by blast
    from Cons.IH [OF this] show ?thesis by auto
  qed
qed


lemma for_each_map: "for_each (map g xs) body = for_each xs (\<lambda>x. body (g x))"
proof
  fix s
  show "for_each (map g xs) body s = for_each xs (\<lambda>x. body (g x)) s"
  proof (induction xs arbitrary: s)
    case Nil
    show ?case by simp
  next
    case (Cons x xs)
    show ?case
      by (cases "body (g x) s") (simp_all add: Cons.IH)
  qed
qed

lemma for_each_concat:
  "for_each (concat xss) body = for_each xss (\<lambda>xs. for_each xs body)"
proof
  fix s
  show "for_each (concat xss) body s = for_each xss (\<lambda>xs. for_each xs body) s"
  proof (induction xss arbitrary: s)
    case Nil
    show ?case by simp
  next
    case (Cons xs xss)
    show ?case
      by (cases "for_each xs body s") (simp_all add: for_each_append Cons.IH)
  qed
qed

lemma for_each_keeps:
  assumes "\<And>x s. handledObjects s \<subseteq> handledObjects (sink_of (body x s))"
  shows "handledObjects s \<subseteq> handledObjects (sink_of (for_each xs body s))"
proof (induction xs arbitrary: s)
  case Nil
  show ?case by (simp add: sink_of_def)
next
  case (Cons x xs)
  show ?case
  proof (cases "body x s")
    case (Ok s1)
    have "handledObjects s \<subseteq> handledObjects s1"
      using assms [of s x] Ok by (simp add: sink_of_def)
    also have "\<dots> \<subseteq> handledObjects (sink_of (for_each xs body s1))"
      by (rule Cons.IH)
    finally show ?thesis using Ok by simp
  next
    case (Raised e s1)
    then show ?thesis
      using assms [of s x] by simp
  qed
qed

subsection \<open>Rounding to zero\<close>

lemma round_half_even_zero:
  fixes y d :: rat and f :: int
  assumes f_def: "f = \<lfloor>y\<rfloor>" and d_def: "d = y - of_int f"
  shows "(if d < 1 / 2 then f else if 1 / 2 < d then f + 1 else if even f then f else f + 1) = 0
     \<longleftrightarrow> \<bar>y\<bar> \<le> 1 / 2"
proof -
  have d0: "0 \<le> d" and d1: "d < 1"
    unfolding d_def f_def by linarith+
  have y: "y = of_int f + d"
    by (simp add: d_def)
  consider "d < 1 / 2" | "1 / 2 < d" | "d = 1 / 2" by linarith
  then show ?thesis
  proof cases
    case 1
    have "f = 0 \<longleftrightarrow> \<bar>y\<bar> \<le> 1 / 2"
    proof
      assume "f = 0"
      with y 1 d0 show "\<bar>y\<bar> \<le> 1 / 2" by simp
    next
      assume a: "\<bar>y\<bar> \<le> 1 / 2"
      have "(of_int f :: rat) > -1" using a y 1 by linarith
      moreover have "(of_int f :: rat) < 1" using a y d0 by linarith
      ultimately have "f > -1" "f < 1" by (simp_all flip: of_int_less_iff)
      then show "f = 0" by linarith
    qed
    with 1 show ?thesis by simp
  next
    case 2
    have "f + 1 = 0 \<longleftrightarrow> \<bar>y\<bar> \<le> 1 / 2"
    proof
      assume "f + 1 = 0"
      then have "f = -1" by linarith
      with y 2 d1 show "\<bar>y\<bar> \<le> 1 / 2" by simp
    next
      assume a: "\<bar>y\<bar> \<le> 1 / 2"
      have "(of_int f :: rat) > -2" using a y d1 by linarith
      moreover have "(of_int f :: rat) < 0" using a y 2 by linarith
      ultimately have "f > -2" "f < 0" by (simp_all flip: of_int_less_iff)
      then show "f + 1 = 0" by linarith
    qed
    with 2 show ?thesis by simp
  next
    case 3
    have range: "\<bar>y\<bar> \<le> 1 / 2 \<longleftrightarrow> f = 0 \<or> f = -1"
    proof
      assume a: "\<bar>y\<bar> \<le> 1 / 2"
      have "(of_int f :: rat) > -2" using a y 3 by linarith
      moreover have "(of_int f :: rat) < 1" using a y 3 by linarith
      ultimately have "f > -2" "f < 1" by (simp_all flip: of_int_less_iff)
      then show "f = 0 \<or> f = -1" by linarith
    next
      assume "f = 0 \<or> f = -1"
      with y 3 show "\<bar>y\<bar> \<le> 1 / 2" by auto
    qed
    show ?thesis
    proof (cases "even f")
      case True
      then have "f \<noteq> -1" by auto
      with 3 True range show ?thesis by auto
    next
      case False
      then have "f \<noteq> 0" by auto
      with 3 False range show ?thesis by auto
    qed
  qed
qed

lemma py_round_zero_iff: "py_round x n = 0 \<longleftrightarrow> \<bar>x\<bar> * 10 ^ n \<le> 1 / 2"
proof -
  have "\<bar>x * 10 ^ n\<bar> = \<bar>x\<bar> * 10 ^ n"
    by (simp add: abs_mult)
  then show ?thesis
    using round_half_even_zero [OF refl refl, of "x * 10 ^ n"]
    by (simp add: py_round_def Let_def)
qed

subsection \<open>The post-processing solver section\<close>

lemma assign_if_apply: "assign_if c k v s k' = (if k' = k \<and> c then Some v else s k')"
  by (simp add: assign_if_def)

lemma solverPost_chain:
  "getMagnetodynamic2DSolverPost w equation =
     ((assign_if (CalculateNodalHeating equation) ''Calculate Nodal Heating'' (Bool True)
      (assign_if (CalculateNodalForces equation) ''Calculate Nodal Forces'' (Bool True)
      (assign_if (\<not> CalculateNodalFields equation) ''Calculate Nodal Fields'' (Bool False)
      (assign_if (CalculateMaxwellStress equation) ''Calculate Maxwell Stress'' (Bool True)
      (assign_if (CalculateMagneticFieldStrength equation) ''Calculate Magnetic Field Strength''
         (Bool True)
      (assign_if (CalculateJouleHeating equation) ''Calculate Joule Heating'' (Bool True)
      (assign_if (CalculateHarmonicLoss equation) ''Calculate Harmonic Loss'' (Bool True)
      (assign_if (\<not> CalculateElementalFields equation) ''Calculate Elemental Fields'' (Bool False)
      (assign_if (CalculateElectricField equation) ''Calculate Electric Field'' (Bool True)
      (assign_if (CalculateCurrentDensity equation) ''Calculate Current Density'' (Bool True)
      ((assign_if (IsHarmonic equation) ''Angular Frequency''
          (Num (Value (AngularFrequency equation)))
      ((createNonlinearSolver w equation)
         (''Equation'' \<mapsto> Str ''MgDyn2DPost'',
          ''Exec Solver'' \<mapsto> Str ''Always'',
          ''Procedure'' \<mapsto> FileAttr ''MagnetoDynamics/MagnetoDynamicsCalcFields'')))
         (''Potential Variable'' \<mapsto> Str ''Potential'')))))))))))))
       (''Optimize Bandwidth'' \<mapsto> Bool True, ''Stabilize'' \<mapsto> Bool (Stabilize equation))"
  unfolding getMagnetodynamic2DSolverPost_def Let_def assign_if_def
  by (simp only: simp_thms)

lemma post_flag_enabled_by_default:
  "getMagnetodynamic2DSolverPost w equation ''Calculate Elemental Fields'' =
     (if \<not> CalculateElementalFields equation then Some (Bool False)
      else createNonlinearSolver w equation ''Calculate Elemental Fields'')"
  "getMagnetodynamic2DSolverPost w equation ''Calculate Nodal Fields'' =
     (if \<not> CalculateNodalFields equation then Some (Bool False)
      else createNonlinearSolver w equation ''Calculate Nodal Fields'')"
  by (simp_all add: solverPost_chain assign_if_apply)

lemma post_flag_disabled_by_default:
  "getMagnetodynamic2DSolverPost w equation ''Calculate Current Density'' =
     (if CalculateCurrentDensity equation then Some (Bool True)
      else createNonlinearSolver w equation ''Calculate Current Density'')"
  "getMagnetodynamic2DSolverPost w equation ''Calculate Electric Field'' =
     (if CalculateElectricField equation then Some (Bool True)
      else createNonlinearSolver w equation ''Calculate Electric Field'')"
  "getMagnetodynamic2DSolverPost w equation ''Calculate Harmonic Loss'' =
     (if CalculateHarmonicLoss equation then Some (Bool True)
      else createNonlinearSolver w equation ''Calculate Harmonic Loss'')"
  "getMagnetodynamic2DSolverPost w equation ''Calculate Joule Heating'' =
     (if CalculateJouleHeating equation then Some (Bool True)
      else createNonlinearSolver w equation ''Calculate Joule Heating'')"
  "getMagnetodynamic2DSolverPost w equation ''Calculate Magnetic Field Strength'' =
     (if CalculateMagneticFieldStrength equation then Some (Bool True)
      else createNonlinearSolver w equation ''Calculate Magnetic Field Strength'')"
  "getMagnetodynamic2DSolverPost w equation ''Calculate Maxwell Stress'' =
     (if CalculateMaxwellStress equation then Some (Bool True)
      else createNonlinearSolver w equation ''Calculate Maxwell Stress'')"
  "getMagnetodynamic2DSolverPost w equation ''Calculate Nodal Forces'' =
     (if CalculateNodalForces equation then Some (Bool True)
      else createNonlinearSolver w equation ''Calculate Nodal Forces'')"
  "getMagnetodynamic2DSolverPost w equation ''Calculate Nodal Heating'' =
     (if CalculateNodalHeating equation then Some (Bool True)
      else createNonlinearSolver w equation ''Calculate Nodal Heating'')"
  by (simp_all add: solverPost_chain assign_if_apply)

text \<open>
  Claim C6. In the post-processing solver section, each calculation flag has a directive of
  its own exactly when it deviates from its default. For \<open>CalculateElementalFields\<close> and
  \<open>CalculateNodalFields\<close> (enabled by default) the key is set, to false, exactly when the flag
  is false; for every other calculation flag the key is set, to true, exactly when the flag is
  true. At the default the key keeps what the section had from \<open>createNonlinearSolver\<close>: no
  directive is produced for it.
\<close>

theorem post_flags_only_off_default:
  "getMagnetodynamic2DSolverPost w equation ''Calculate Elemental Fields'' =
     (if \<not> CalculateElementalFields equation then Some (Bool False)
      else createNonlinearSolver w equation ''Calculate Elemental Fields'')
   \<and> getMagnetodynamic2DSolverPost w equation ''Calculate Nodal Fields'' =
     (if \<not> CalculateNodalFields equation then Some (Bool False)
      else createNonlinearSolver w equation ''Calculate Nodal Fields'')
   \<and> getMagnetodynamic2DSolverPost w equation ''Calculate Current Density'' =
     (if CalculateCurrentDensity equation then Some (Bool True)
      else createNonlinearSolver w equation ''Calculate Current Density'')
   \<and> getMagnetodynamic2DSolverPost w equation ''Calculate Electric Field'' =
     (if CalculateElectricField equation then Some (Bool True)
      else createNonlinearSolver w equation ''Calculate Electric Field'')
   \<and> getMagnetodynamic2DSolverPost w equation ''Calculate Harmonic Loss'' =
     (if CalculateHarmonicLoss equation then Some (Bool True)
      else createNonlinearSolver w equation ''Calculate Harmonic Loss'')
   \<and> getMagnetodynamic2DSolverPost w equation ''Calculate Joule Heating'' =
     (if CalculateJouleHeating equation then Some (Bool True)
      else createNonlinearSolver w equation ''Calculate Joule Heating'')
   \<and> getMagnetodynamic2DSolverPost w equation ''Calculate Magnetic Field Strength'' =
     (if CalculateMagneticFieldStrength equation then Some (Bool True)
      else createNonlinearSolver w equation ''Calculate Magnetic Field Strength'')
   \<and> getMagnetodynamic2DSolverPost w equation ''Calculate Maxwell Stress'' =
     (if CalculateMaxwellStress equation then Some (Bool True)
      else createNonlinearSolver w equation ''Calculate Maxwell Stress'')
   \<and> getMagnetodynamic2DSolverPost w equation ''Calculate Nodal Forces'' =
     (if CalculateNodalForces equation then Some (Bool True)
      else createNonlinearSolver w equation ''Calculate Nodal Forces'')
   \<and> getMagnetodynamic2DSolverPost w equation ''Calculate Nodal Heating'' =
     (if CalculateNodalHeating equation then Some (Bool True)
      else createNonlinearSolver w equation ''Calculate Nodal Heating'')"
  by (intro conjI) (rule post_flag_enabled_by_default post_flag_disabled_by_default)+

theorem post_flags_only_off_default_witness:
  "getMagnetodynamic2DSolverPost writer0 (equation0 False 0) ''Calculate Elemental Fields'' = None
   \<and> getMagnetodynamic2DSolverPost writer0
        ((equation0 False 0)\<lparr>CalculateElementalFields := False\<rparr>) ''Calculate Elemental Fields''
       = Some (Bool False)
   \<and> getMagnetodynamic2DSolverPost writer0 (equation0 False 0) ''Calculate Current Density'' = None
   \<and> getMagnetodynamic2DSolverPost writer0
        ((equation0 False 0)\<lparr>CalculateCurrentDensity := True\<rparr>) ''Calculate Current Density''
       = Some (Bool True)"
  using post_flags_only_off_default [of writer0 "equation0 False 0"]
    post_flags_only_off_default [of writer0 "(equation0 False 0)\<lparr>CalculateElementalFields := False\<rparr>"]
    post_flags_only_off_default [of writer0 "(equation0 False 0)\<lparr>CalculateCurrentDensity := True\<rparr>"]
  by (simp add: equation0_def writer0_def)

subsection \<open>Materials\<close>

lemma check_bodies_find:
  "for_each bodies (check_body_material w) s =
     (case find (\<lambda>name. getBodyMaterial w name = None) bodies of
        None \<Rightarrow> Ok s
      | Some name \<Rightarrow> Raised (UnassignedBodyError name) s)"
  by (induction bodies) (simp_all add: check_body_material_def)

lemma find_first:
  "\<forall>n \<in> set pre. \<not> P n \<Longrightarrow> P b \<Longrightarrow> find P (pre @ b # post) = Some b"
  by (induction pre) simp_all


text \<open>
  Claim C4. If some body of \<open>bodies\<close> has no material, the material resolver raises the
  unassigned-body error for the first such body in iteration order, whose name is in the
  message, and the sink is the one it started from: the check of all bodies comes before any
  material directive. In particular a body without material that follows only bodies with
  materials is the one named.
\<close>

theorem unassigned_body_rejected_first:
  "(b \<in> set bodies \<and> getBodyMaterial w b = None \<longrightarrow>
      (\<exists>name. name \<in> set bodies \<and> getBodyMaterial w name = None \<and>
         find (\<lambda>n. getBodyMaterial w n = None) bodies = Some name \<and>
         handleMagnetodynamic2DMaterial w bodies s = Raised (UnassignedBodyError name) s))
   \<and> (bodies = pre @ b # post \<and> (\<forall>n \<in> set pre. getBodyMaterial w n \<noteq> None) \<and>
      getBodyMaterial w b = None \<longrightarrow>
      handleMagnetodynamic2DMaterial w bodies s =
        Raised (WriteError (''The body '' @ b @
                  '' is not referenced in any material.\<newline>\<newline>'')) s)"
proof (intro conjI impI)
  assume a: "b \<in> set bodies \<and> getBodyMaterial w b = None"
  then have "find (\<lambda>n. getBodyMaterial w n = None) bodies \<noteq> None"
    by (auto simp: find_None_iff)
  then obtain name where f: "find (\<lambda>n. getBodyMaterial w n = None) bodies = Some name"
    by blast
  then have "name \<in> set bodies" "getBodyMaterial w name = None"
    by (auto simp: find_Some_iff)
  moreover have "handleMagnetodynamic2DMaterial w bodies s = Raised (UnassignedBodyError name) s"
    by (simp add: handleMagnetodynamic2DMaterial_def check_bodies_find f)
  ultimately show "\<exists>name. name \<in> set bodies \<and> getBodyMaterial w name = None \<and>
         find (\<lambda>n. getBodyMaterial w n = None) bodies = Some name \<and>
         handleMagnetodynamic2DMaterial w bodies s = Raised (UnassignedBodyError name) s"
    using f by blast
next
  assume b: "bodies = pre @ b # post \<and> (\<forall>n \<in> set pre. getBodyMaterial w n \<noteq> None) \<and>
      getBodyMaterial w b = None"
  then have "find (\<lambda>n. getBodyMaterial w n = None) bodies = Some b"
    using find_first [of pre "\<lambda>n. getBodyMaterial w n = None" b post] by simp
  then show "handleMagnetodynamic2DMaterial w bodies s =
        Raised (WriteError (''The body '' @ b @
                  '' is not referenced in any material.\<newline>\<newline>'')) s"
    by (simp add: handleMagnetodynamic2DMaterial_def check_bodies_find UnassignedBodyError_def)
qed

theorem unassigned_body_rejected_first_witness:
  "handleMagnetodynamic2DMaterial (material_writer [steel]) [''A'', ''C'', ''D''] sink0
     = Raised (WriteError ''The body C is not referenced in any material.\<newline>\<newline>'') sink0"
proof -
  have "[''A'', ''C'', ''D''] = [''A''] @ ''C'' # [''D'']"
    by simp
  moreover have "\<forall>n \<in> set [''A'']. getBodyMaterial (material_writer [steel]) n \<noteq> None"
    by (simp add: material_writer_def writer0_def steel_def material_def)
  moreover have "getBodyMaterial (material_writer [steel]) ''C'' = None"
    by (simp add: material_writer_def writer0_def steel_def material_def)
  ultimately show ?thesis
    using unassigned_body_rejected_first
      [of "''C''" "[''A'', ''C'', ''D'']" "material_writer [steel]" sink0 "[''A'']" "[''D'']"]
    by simp
qed

lemma material_object_body_pairs:
  "material_object_body w bodies obj s =
     for_each (map (\<lambda>name. (Material obj, name))
                 (filter (\<lambda>n. n \<in> set bodies) (material_refs w obj)))
       (\<lambda>(m, name). material_body w m name) s"
  by (simp add: material_object_body_def for_each_map)

lemma material_loop_pairs:
  "for_each (materialObjects w) (material_object_body w bodies) s =
     for_each (material_pairs w bodies) (\<lambda>(m, name). material_body w m name) s"
proof -
  have "material_object_body w bodies =
      (\<lambda>obj. for_each (map (\<lambda>name. (Material obj, name))
                 (filter (\<lambda>n. n \<in> set bodies) (material_refs w obj)))
       (\<lambda>(m, name). material_body w m name))"
    by (intro ext) (rule material_object_body_pairs)
  then show ?thesis
    by (simp add: material_pairs_def for_each_concat for_each_map)
qed

lemma material_body_no_conductivity:
  "m ''ElectricalConductivity'' = None \<Longrightarrow>
   material_body w m name s = Raised MissingConductivityError s"
  by (simp add: material_body_def)

lemma material_body_no_permeability:
  "m ''ElectricalConductivity'' \<noteq> None \<Longrightarrow> m ''RelativePermeability'' = None \<Longrightarrow>
   material_body w m name s = Raised MissingPermeabilityError s"
  by (auto simp: material_body_def)

lemma material_pairs_iff:
  "(m, name) \<in> set (material_pairs w bodies) \<longleftrightarrow>
     (\<exists>obj \<in> set (materialObjects w).
        m = Material obj \<and> name \<in> set (material_refs w obj) \<and> name \<in> set bodies)"
  by (auto simp: material_pairs_def)

lemma material_pass_check:
  "\<forall>b \<in> set bodies. getBodyMaterial w b \<noteq> None \<Longrightarrow>
   handleMagnetodynamic2DMaterial w bodies s =
     for_each (materialObjects w) (material_object_body w bodies) s"
proof -
  assume "\<forall>b \<in> set bodies. getBodyMaterial w b \<noteq> None"
  then have "find (\<lambda>name. getBodyMaterial w name = None) bodies = None"
    by (simp add: find_None_iff)
  then show ?thesis
    by (simp add: handleMagnetodynamic2DMaterial_def check_bodies_find)
qed

text \<open>
  Claim C5, as stated, fails: a material dictionary that has \<open>ElectricalConductivity\<close> and
  \<open>RelativePermeability\<close> but no \<open>Name\<close> entry passes both membership tests, and \<open>m["Name"]\<close>
  then raises \<open>KeyError\<close> before anything is emitted.
\<close>

theorem material_without_name_counterexample:
  "Material nameless ''ElectricalConductivity'' \<noteq> None
   \<and> Material nameless ''RelativePermeability'' \<noteq> None
   \<and> getBodyMaterial (material_writer [nameless]) ''A'' \<noteq> None
   \<and> handleMagnetodynamic2DMaterial (material_writer [nameless]) [''A''] sink0
       = Raised (KeyError ''Name'') sink0"
  by (simp add: handleMagnetodynamic2DMaterial_def check_body_material_def
      material_object_body_def material_refs_def material_body_def material_writer_def
      writer0_def nameless_def material_def)

text \<open>
  Likewise \<open>float\<close> raises \<open>ValueError\<close> on a relative permeability that is not a number, after
  \<open>Name\<close> and \<open>Electric Conductivity\<close> have been written.
\<close>

lemma material_not_numeric_example:
  "handleMagnetodynamic2DMaterial (material_writer [iron]) [''A''] sink0
     = Raised (ValueError ''high'')
         \<lparr>directives =
            [(MATERIAL, ''A'', ''Name'', Str ''Iron''),
             (MATERIAL, ''A'', ''Electric Conductivity'', Num 5)],
          handledObjects = {}\<rparr>"
proof -
  have "py_round 5 10 = 5"
    by code_simp
  then show ?thesis
    by (simp add: handleMagnetodynamic2DMaterial_def check_body_material_def
        material_object_body_def material_refs_def material_body_def material_writer_def
        writer0_def iron_def material_def write_material_def write_directive_def sink0_def)
qed

text \<open>
  Claim C5, amended. Once every body has a material, the resolver runs the loop body over the
  (material, body) pairs in order: each material object in model order, with each name of its
  effective target list (the names of its first reference, or all bodies of the model when
  it has no reference) that is in \<open>bodies\<close>; the first exception ends the run. For such a
  pair the loop body raises the electrical-conductivity error when \<open>ElectricalConductivity\<close>
  is absent, the relative-permeability error when that is present and \<open>RelativePermeability\<close>
  is absent, and otherwise, when the dictionary has a \<open>Name\<close> entry and \<open>float\<close> accepts the
  strings it is given, it emits in order \<open>Name\<close>, \<open>Electric Conductivity\<close> (converted, then
  rounded to 10 decimals), \<open>Relative Permeability\<close>, and \<open>Relative Permittivity\<close> only when
  that property is present.
\<close>

theorem material_pairs_checked_and_emitted:
  "((\<forall>b \<in> set bodies. getBodyMaterial w b \<noteq> None) \<longrightarrow>
      handleMagnetodynamic2DMaterial w bodies s =
        for_each (material_pairs w bodies) (\<lambda>(m, name). material_body w m name) s)
   \<and> ((m, name) \<in> set (material_pairs w bodies) \<longleftrightarrow>
        (\<exists>obj \<in> set (materialObjects w).
           m = Material obj \<and> name \<in> set bodies \<and>
           name \<in> set (case References obj of r # rs \<Rightarrow> snd r | [] \<Rightarrow> getAllBodies w)))
   \<and> (m ''ElectricalConductivity'' = None \<longrightarrow>
        material_body w m name s = Raised MissingConductivityError s)
   \<and> (m ''ElectricalConductivity'' \<noteq> None \<and> m ''RelativePermeability'' = None \<longrightarrow>
        material_body w m name s = Raised MissingPermeabilityError s)
   \<and> (m ''ElectricalConductivity'' = Some ec \<and> m ''RelativePermeability'' = Some rp \<and>
      m ''Name'' = Some n \<and> float_of_str w rp = Some p \<and> m ''RelativePermittivity'' = None \<longrightarrow>
        material_body w m name s =
          Ok (emit [(MATERIAL, name, ''Name'', Str n),
                    (MATERIAL, name, ''Electric Conductivity'',
                       Num (py_round (convert w ec ''T^3*I^2/(L^3*M)'') 10)),
                    (MATERIAL, name, ''Relative Permeability'', Num p)] s))
   \<and> (m ''ElectricalConductivity'' = Some ec \<and> m ''RelativePermeability'' = Some rp \<and>
      m ''Name'' = Some n \<and> float_of_str w rp = Some p \<and>
      m ''RelativePermittivity'' = Some e \<and> float_of_str w e = Some ev \<longrightarrow>
        material_body w m name s =
          Ok (emit [(MATERIAL, name, ''Name'', Str n),
                    (MATERIAL, name, ''Electric Conductivity'',
                       Num (py_round (convert w ec ''T^3*I^2/(L^3*M)'') 10)),
                    (MATERIAL, name, ''Relative Permeability'', Num p),
                    (MATERIAL, name, ''Relative Permittivity'', Num ev)] s))"
proof (intro conjI impI)
  assume "\<forall>b \<in> set bodies. getBodyMaterial w b \<noteq> None"
  then show "handleMagnetodynamic2DMaterial w bodies s =
        for_each (material_pairs w bodies) (\<lambda>(m, name). material_body w m name) s"
    by (simp add: material_pass_check material_loop_pairs)
next
  show "(m, name) \<in> set (material_pairs w bodies) \<longleftrightarrow>
        (\<exists>obj \<in> set (materialObjects w).
           m = Material obj \<and> name \<in> set bodies \<and>
           name \<in> set (case References obj of r # rs \<Rightarrow> snd r | [] \<Rightarrow> getAllBodies w))"
    by (auto simp: material_pairs_iff material_refs_def)
next
  assume "m ''ElectricalConductivity'' = None"
  then show "material_body w m name s = Raised MissingConductivityError s"
    by (rule material_body_no_conductivity)
next
  assume "m ''ElectricalConductivity'' \<noteq> None \<and> m ''RelativePermeability'' = None"
  then show "material_body w m name s = Raised MissingPermeabilityError s"
    by (simp add: material_body_no_permeability)
next
  assume a: "m ''ElectricalConductivity'' = Some ec \<and> m ''RelativePermeability'' = Some rp \<and>
      m ''Name'' = Some n \<and> float_of_str w rp = Some p \<and> m ''RelativePermittivity'' = None"
  then show "material_body w m name s =
          Ok (emit [(MATERIAL, name, ''Name'', Str n),
                    (MATERIAL, name, ''Electric Conductivity'',
                       Num (py_round (convert w ec ''T^3*I^2/(L^3*M)'') 10)),
                    (MATERIAL, name, ''Relative Permeability'', Num p)] s)"
    by (simp add: material_body_def write_material_def write_directive_emit emit_emit)
next
  assume a: "m ''ElectricalConductivity'' = Some ec \<and> m ''RelativePermeability'' = Some rp \<and>
      m ''Name'' = Some n \<and> float_of_str w rp = Some p \<and>
      m ''RelativePermittivity'' = Some e \<and> float_of_str w e = Some ev"
  then show "material_body w m name s =
          Ok (emit [(MATERIAL, name, ''Name'', Str n),
                    (MATERIAL, name, ''Electric Conductivity'',
                       Num (py_round (convert w ec ''T^3*I^2/(L^3*M)'') 10)),
                    (MATERIAL, name, ''Relative Permeability'', Num p),
                    (MATERIAL, name, ''Relative Permittivity'', Num ev)] s)"
    by (simp add: material_body_def write_material_def write_directive_emit emit_emit)
qed

theorem material_pairs_checked_and_emitted_witness:
  "handleMagnetodynamic2DMaterial (material_writer [steel, air]) [''A'', ''B''] sink0
     = Ok \<lparr>directives =
             [(MATERIAL, ''A'', ''Name'', Str ''Steel''),
              (MATERIAL, ''A'', ''Electric Conductivity'', Num 5),
              (MATERIAL, ''A'', ''Relative Permeability'', Num 100),
              (MATERIAL, ''A'', ''Name'', Str ''Air''),
              (MATERIAL, ''A'', ''Electric Conductivity'', Num 0),
              (MATERIAL, ''A'', ''Relative Permeability'', Num 1),
              (MATERIAL, ''A'', ''Relative Permittivity'', Num 1),
              (MATERIAL, ''B'', ''Name'', Str ''Air''),
              (MATERIAL, ''B'', ''Electric Conductivity'', Num 0),
              (MATERIAL, ''B'', ''Relative Permeability'', Num 1),
              (MATERIAL, ''B'', ''Relative Permittivity'', Num 1)],
           handledObjects = {}\<rparr>
   \<and> material_body (material_writer []) Map.empty ''A'' sink0
       = Raised MissingConductivityError sink0
   \<and> material_body (material_writer []) [''ElectricalConductivity'' \<mapsto> ''5 S/m''] ''A'' sink0
       = Raised MissingPermeabilityError sink0"
proof -
  let ?w = "material_writer [steel, air]"
  have r5: "py_round 5 10 = 5" and r0: "py_round 0 10 = 0"
    by code_simp+
  have pairs: "material_pairs ?w [''A'', ''B''] =
      [(Material steel, ''A''), (Material air, ''A''), (Material air, ''B'')]"
    by (simp add: material_pairs_def material_refs_def material_writer_def writer0_def
        steel_def air_def material_def)
  have checked: "\<forall>b \<in> set [''A'', ''B'']. getBodyMaterial ?w b \<noteq> None"
    by (simp add: material_writer_def writer0_def steel_def air_def material_def)
  have s: "Material steel ''ElectricalConductivity'' = Some ''5 S/m''
      \<and> Material steel ''RelativePermeability'' = Some ''100''
      \<and> Material steel ''Name'' = Some ''Steel'' \<and> float_of_str ?w ''100'' = Some 100
      \<and> Material steel ''RelativePermittivity'' = None"
    by (simp add: material_writer_def writer0_def steel_def material_def)
  have a: "Material air ''ElectricalConductivity'' = Some ''0 S/m''
      \<and> Material air ''RelativePermeability'' = Some ''1''
      \<and> Material air ''Name'' = Some ''Air'' \<and> float_of_str ?w ''1'' = Some 1
      \<and> Material air ''RelativePermittivity'' = Some ''1'' \<and> float_of_str ?w ''1'' = Some 1"
    by (simp add: material_writer_def writer0_def air_def material_def)
  have conv: "convert ?w ''5 S/m'' ''T^3*I^2/(L^3*M)'' = 5" "convert ?w ''0 S/m'' ''T^3*I^2/(L^3*M)'' = 0"
    by (simp_all add: material_writer_def writer0_def)
  note main = material_pairs_checked_and_emitted
  have steelA: "material_body ?w (Material steel) ''A'' s =
      Ok (emit [(MATERIAL, ''A'', ''Name'', Str ''Steel''),
                (MATERIAL, ''A'', ''Electric Conductivity'', Num 5),
                (MATERIAL, ''A'', ''Relative Permeability'', Num 100)] s)" for s
    using main [of "[''A'', ''B'']" ?w s "Material steel" "''A''" "''5 S/m''" "''100''" "''Steel''" 100]
      s conv r5 by simp
  have air: "material_body ?w (Material air) name s =
      Ok (emit [(MATERIAL, name, ''Name'', Str ''Air''),
                (MATERIAL, name, ''Electric Conductivity'', Num 0),
                (MATERIAL, name, ''Relative Permeability'', Num 1),
                (MATERIAL, name, ''Relative Permittivity'', Num 1)] s)" for s name
    using main [of "[''A'', ''B'']" ?w s "Material air" name "''0 S/m''" "''1''" "''Air''" 1 "''1''" 1]
      a conv r0 by simp
  have "handleMagnetodynamic2DMaterial ?w [''A'', ''B''] sink0 =
      for_each (material_pairs ?w [''A'', ''B'']) (\<lambda>(m, name). material_body ?w m name) sink0"
    using main [of "[''A'', ''B'']" ?w sink0] checked by blast
  then have whole: "handleMagnetodynamic2DMaterial ?w [''A'', ''B''] sink0
     = Ok \<lparr>directives =
             [(MATERIAL, ''A'', ''Name'', Str ''Steel''),
              (MATERIAL, ''A'', ''Electric Conductivity'', Num 5),
              (MATERIAL, ''A'', ''Relative Permeability'', Num 100),
              (MATERIAL, ''A'', ''Name'', Str ''Air''),
              (MATERIAL, ''A'', ''Electric Conductivity'', Num 0),
              (MATERIAL, ''A'', ''Relative Permeability'', Num 1),
              (MATERIAL, ''A'', ''Relative Permittivity'', Num 1),
              (MATERIAL, ''B'', ''Name'', Str ''Air''),
              (MATERIAL, ''B'', ''Electric Conductivity'', Num 0),
              (MATERIAL, ''B'', ''Relative Permeability'', Num 1),
              (MATERIAL, ''B'', ''Relative Permittivity'', Num 1)],
           handledObjects = {}\<rparr>"
    by (simp add: pairs steelA air emit_def sink0_def)
  have none: "material_body (material_writer []) Map.empty ''A'' sink0
       = Raised MissingConductivityError sink0"
    using main [of "[]" "material_writer []" sink0 Map.empty "''A''"] by simp
  have perm: "material_body (material_writer []) [''ElectricalConductivity'' \<mapsto> ''5 S/m''] ''A'' sink0
       = Raised MissingPermeabilityError sink0"
    using main [of "[]" "material_writer []" sink0 "[''ElectricalConductivity'' \<mapsto> ''5 S/m'']" "''A''"]
    by simp
  from whole none perm show ?thesis by simp
qed

subsection \<open>Body forces\<close>

lemma output_zero:
  "py_round (magnitude w obj) 10 = 0 \<Longrightarrow>
   outputMagnetodynamic2DBodyForce w obj name s = Raised ZeroSourceError s"
  by (simp add: outputMagnetodynamic2DBodyForce_def magnitude_def)

lemma output_nonzero:
  "py_round (magnitude w obj) 10 \<noteq> 0 \<Longrightarrow>
   outputMagnetodynamic2DBodyForce w obj name s =
     Ok (emit [(BODY_FORCE, name, ''Current Density'', Num (py_round (magnitude w obj) 10))] s)"
  by (simp add: outputMagnetodynamic2DBodyForce_def magnitude_def write_bodyForce_def
      write_directive_emit)

lemma output_raised:
  "outputMagnetodynamic2DBodyForce w obj name s = Raised e s' \<Longrightarrow>
   e = ZeroSourceError \<and> s' = s \<and> py_round (magnitude w obj) 10 = 0"
  by (cases "py_round (magnitude w obj) 10 = 0") (simp_all add: output_zero output_nonzero)

lemma bodyForce_fails_iff_tiny:
  "py_round (magnitude w obj) 10 = 0 \<longleftrightarrow> \<bar>magnitude w obj\<bar> \<le> 1 / (2 * 10 ^ 10)"
proof -
  have "\<bar>magnitude w obj\<bar> * 10 ^ 10 \<le> 1 / 2 \<longleftrightarrow> \<bar>magnitude w obj\<bar> \<le> 1 / (2 * 10 ^ 10)"
    by (simp add: field_simps)
  then show ?thesis
    by (simp only: py_round_zero_iff)
qed

lemma py_round_tiny: "py_round (1 / 10 ^ 12) 10 = 0"
  by code_simp

text \<open>
  Claim C2. Emission for a (constraint, body) pair rounds the fetched magnitude to 10
  decimals first. It raises the zero-source error exactly when the rounded magnitude is 0,
  and then writes nothing; otherwise it writes the rounded magnitude as \<open>Current Density\<close> in
  the BodyForce section under the body's name. A magnitude of \<open>1e-12\<close> rounds to 0 and fails;
  the magnitudes that fail are those of absolute value at most \<open>5e-11\<close>.
\<close>

theorem bodyForce_zero_check_after_rounding:
  "((\<exists>s'. outputMagnetodynamic2DBodyForce w obj name s = Raised ZeroSourceError s')
      \<longleftrightarrow> py_round (magnitude w obj) 10 = 0)
   \<and> (py_round (magnitude w obj) 10 = 0 \<longrightarrow>
        outputMagnetodynamic2DBodyForce w obj name s = Raised ZeroSourceError s)
   \<and> (py_round (magnitude w obj) 10 \<noteq> 0 \<longrightarrow>
        outputMagnetodynamic2DBodyForce w obj name s =
          Ok (emit [(BODY_FORCE, name, ''Current Density'',
                     Num (py_round (magnitude w obj) 10))] s))
   \<and> (magnitude w obj = 1 / 10 ^ 12 \<longrightarrow>
        outputMagnetodynamic2DBodyForce w obj name s = Raised ZeroSourceError s)
   \<and> ((\<exists>s'. outputMagnetodynamic2DBodyForce w obj name s = Raised ZeroSourceError s')
      \<longleftrightarrow> \<bar>magnitude w obj\<bar> \<le> 1 / (2 * 10 ^ 10))"
proof (intro conjI impI)
  show "(\<exists>s'. outputMagnetodynamic2DBodyForce w obj name s = Raised ZeroSourceError s')
      \<longleftrightarrow> py_round (magnitude w obj) 10 = 0"
    using output_zero [of w obj name s] output_raised [of w obj name s ZeroSourceError]
    by blast
next
  assume "py_round (magnitude w obj) 10 = 0"
  then show "outputMagnetodynamic2DBodyForce w obj name s = Raised ZeroSourceError s"
    by (rule output_zero)
next
  assume "py_round (magnitude w obj) 10 \<noteq> 0"
  then show "outputMagnetodynamic2DBodyForce w obj name s =
      Ok (emit [(BODY_FORCE, name, ''Current Density'', Num (py_round (magnitude w obj) 10))] s)"
    by (rule output_nonzero)
next
  assume "magnitude w obj = 1 / 10 ^ 12"
  then have "py_round (magnitude w obj) 10 = 0"
    by (simp only: py_round_tiny)
  then show "outputMagnetodynamic2DBodyForce w obj name s = Raised ZeroSourceError s"
    by (rule output_zero)
next
  show "(\<exists>s'. outputMagnetodynamic2DBodyForce w obj name s = Raised ZeroSourceError s')
      \<longleftrightarrow> \<bar>magnitude w obj\<bar> \<le> 1 / (2 * 10 ^ 10)"
    using output_zero [of w obj name s] output_raised [of w obj name s ZeroSourceError]
      bodyForce_fails_iff_tiny [of w obj]
    by blast
qed

lemma py_round_third: "py_round (1 / 3) 10 = 3333333333 / 10 ^ 10"
  by code_simp

theorem bodyForce_zero_check_after_rounding_witness:
  "outputMagnetodynamic2DBodyForce writer0 (source ''J'' [] (1 / 10 ^ 12)) ''A'' sink0
     = Raised ZeroSourceError sink0
   \<and> outputMagnetodynamic2DBodyForce writer0 (source ''J'' [] (1 / 3)) ''A'' sink0
     = Ok \<lparr>directives = [(BODY_FORCE, ''A'', ''Current Density'', Num (3333333333 / 10 ^ 10))],
           handledObjects = {}\<rparr>"
proof -
  have tiny: "magnitude writer0 (source ''J'' [] (1 / 10 ^ 12)) = 1 / 10 ^ 12"
    by (simp add: magnitude_def writer0_def source_def)
  have third: "py_round (magnitude writer0 (source ''J'' [] (1 / 3))) 10 = 3333333333 / 10 ^ 10"
    by (simp add: magnitude_def writer0_def source_def py_round_third)
  show ?thesis
    using bodyForce_zero_check_after_rounding
        [of writer0 "source ''J'' [] (1 / 10 ^ 12)" "''A''" sink0]
      bodyForce_zero_check_after_rounding [of writer0 "source ''J'' [] (1 / 3)" "''A''" sink0]
      tiny third
    by (simp add: emit_def sink0_def)
qed

lemma output_all:
  "for_each names (outputMagnetodynamic2DBodyForce w obj) s =
     (if names = [] \<or> py_round (magnitude w obj) 10 \<noteq> 0
      then Ok (emit (map (\<lambda>b. (BODY_FORCE, b, ''Current Density'',
                 Num (py_round (magnitude w obj) 10))) names) s)
      else Raised ZeroSourceError s)"
proof (cases "py_round (magnitude w obj) 10 = 0")
  case True
  then show ?thesis
    by (cases names) (simp_all add: output_zero emit_Nil)
next
  case False
  have "for_each names (outputMagnetodynamic2DBodyForce w obj) s =
      Ok (emit (concat (map (\<lambda>b. [(BODY_FORCE, b, ''Current Density'',
                 Num (py_round (magnitude w obj) 10))]) names)) s)"
    by (rule for_each_emit) (simp add: output_nonzero [OF False])
  moreover have "concat (map (\<lambda>b. [f b]) names) = map f names" for f :: "string \<Rightarrow> directive"
    by (induction names) simp_all
  ultimately show ?thesis using False by simp
qed

lemma bodyForces_body_raised:
  assumes "bodyForces_body w bodies obj s = Raised e s'"
  shows "e = ZeroSourceError \<or> e = AmbiguousSourceAssignmentError"
proof (cases "References obj")
  case Nil
  with assms show ?thesis
    by (auto simp: bodyForces_body_def and_then_Raised_iff output_all split: if_splits)
next
  case (Cons r rs)
  with assms show ?thesis
    by (auto simp: bodyForces_body_def and_then_Raised_iff output_all split: if_splits)
qed

lemma MissingSource_distinct:
  "MissingSourceError \<noteq> ZeroSourceError" "MissingSourceError \<noteq> AmbiguousSourceAssignmentError"
  by (simp_all add: MissingSourceError_def ZeroSourceError_def AmbiguousSourceAssignmentError_def)

text \<open>
  Claim C8. The body-force resolver raises the missing-source error if and only if the model
  has no current-density constraint; when it has none, the error is raised with the sink
  untouched, before any body-force directive is written.
\<close>

theorem missing_source_iff_no_constraint:
  "((\<exists>s'. handleMagnetodynamic2DBodyForces w bodies s = Raised MissingSourceError s')
      \<longleftrightarrow> currentDensities w = [])
   \<and> (currentDensities w = [] \<longrightarrow>
        handleMagnetodynamic2DBodyForces w bodies s = Raised MissingSourceError s)"
proof (cases "currentDensities w = []")
  case True
  then show ?thesis by (simp add: handleMagnetodynamic2DBodyForces_def)
next
  case False
  have "handleMagnetodynamic2DBodyForces w bodies s \<noteq> Raised MissingSourceError s'" for s'
  proof
    assume "handleMagnetodynamic2DBodyForces w bodies s = Raised MissingSourceError s'"
    with False have "for_each (currentDensities w) (bodyForces_body w bodies) s =
        Raised MissingSourceError s'"
      by (simp add: handleMagnetodynamic2DBodyForces_def)
    then obtain obj s1 where "bodyForces_body w bodies obj s1 = Raised MissingSourceError s'"
      using for_each_raised_source by fastforce
    then show False
      using bodyForces_body_raised MissingSource_distinct by blast
  qed
  with False show ?thesis by simp
qed

theorem missing_source_iff_no_constraint_witness:
  "handleMagnetodynamic2DBodyForces writer0 [''A''] sink0 = Raised MissingSourceError sink0
   \<and> handleMagnetodynamic2DBodyForces (writer0\<lparr>currentDensities := [source ''J'' [] 0]\<rparr>)
        [''A''] sink0 = Raised ZeroSourceError sink0"
proof -
  have "currentDensities writer0 = []"
    by (simp add: writer0_def)
  moreover have "py_round 0 10 = 0"
    by code_simp
  ultimately show ?thesis
    using missing_source_iff_no_constraint [of writer0 "[''A'']" sink0]
    by (simp add: handleMagnetodynamic2DBodyForces_def bodyForces_body_def output_all
        magnitude_def writer0_def source_def)
qed

lemma bodyForces_body_unreferenced_sole:
  "References obj = [] \<Longrightarrow> length (currentDensities w) = 1 \<Longrightarrow>
   bodyForces_body w bodies obj s =
     (if bodies = [] \<or> py_round (magnitude w obj) 10 \<noteq> 0
      then Ok (handled obj (emit (map (\<lambda>b. (BODY_FORCE, b, ''Current Density'',
                 Num (py_round (magnitude w obj) 10))) bodies) s))
      else Raised ZeroSourceError s)"
  by (simp add: bodyForces_body_def output_all)

lemma bodyForces_body_unreferenced_several:
  "References obj = [] \<Longrightarrow> length (currentDensities w) \<noteq> 1 \<Longrightarrow>
   bodyForces_body w bodies obj s = Raised AmbiguousSourceAssignmentError s"
  by (simp add: bodyForces_body_def)

text \<open>
  Claim C1. A current-density constraint without references that is the only one of the model
  is emitted for every body of \<open>bodies\<close>, in order (the emission of the first body raising the
  zero-source error when the rounded magnitude is 0), and is then marked handled. When the
  model has more than one current-density constraint, the resolver raises the
  ambiguous-source error as soon as the loop reaches a constraint without references, with
  the sink as the constraints before it left it.
\<close>

theorem unreferenced_current_density:
  "(currentDensities w = [obj] \<and> References obj = [] \<longrightarrow>
      handleMagnetodynamic2DBodyForces w bodies s =
        (if bodies = [] \<or> py_round (magnitude w obj) 10 \<noteq> 0
         then Ok (handled obj (emit (map (\<lambda>b. (BODY_FORCE, b, ''Current Density'',
                    Num (py_round (magnitude w obj) 10))) bodies) s))
         else Raised ZeroSourceError s))
   \<and> (currentDensities w = pre @ obj # post \<and> pre @ post \<noteq> [] \<and> References obj = [] \<and>
      for_each pre (bodyForces_body w bodies) s = Ok s1 \<longrightarrow>
      handleMagnetodynamic2DBodyForces w bodies s = Raised AmbiguousSourceAssignmentError s1)"
proof (intro conjI impI)
  assume a: "currentDensities w = [obj] \<and> References obj = []"
  then have "length (currentDensities w) = 1" by simp
  with a have "bodyForces_body w bodies obj s =
      (if bodies = [] \<or> py_round (magnitude w obj) 10 \<noteq> 0
       then Ok (handled obj (emit (map (\<lambda>b. (BODY_FORCE, b, ''Current Density'',
                  Num (py_round (magnitude w obj) 10))) bodies) s))
       else Raised ZeroSourceError s)"
    by (simp add: bodyForces_body_unreferenced_sole)
  with a show "handleMagnetodynamic2DBodyForces w bodies s =
      (if bodies = [] \<or> py_round (magnitude w obj) 10 \<noteq> 0
       then Ok (handled obj (emit (map (\<lambda>b. (BODY_FORCE, b, ''Current Density'',
                  Num (py_round (magnitude w obj) 10))) bodies) s))
       else Raised ZeroSourceError s)"
    by (simp add: handleMagnetodynamic2DBodyForces_def)
next
  assume b: "currentDensities w = pre @ obj # post \<and> pre @ post \<noteq> [] \<and> References obj = [] \<and>
      for_each pre (bodyForces_body w bodies) s = Ok s1"
  then have len: "length (currentDensities w) \<noteq> 1"
    by (cases pre; cases post) simp_all
  from b have "bodyForces_body w bodies obj s1 = Raised AmbiguousSourceAssignmentError s1"
    using bodyForces_body_unreferenced_several [OF _ len] by simp
  with b have "for_each (pre @ obj # post) (bodyForces_body w bodies) s =
      Raised AmbiguousSourceAssignmentError s1"
    by (simp add: for_each_append)
  with b show "handleMagnetodynamic2DBodyForces w bodies s = Raised AmbiguousSourceAssignmentError s1"
    by (simp add: handleMagnetodynamic2DBodyForces_def)
qed

lemma py_round_five: "py_round 5 10 = 5"
  by code_simp

theorem unreferenced_current_density_witness:
  "handleMagnetodynamic2DBodyForces (writer0\<lparr>currentDensities := [source ''J'' [] 5]\<rparr>)
       [''A'', ''B'', ''C''] sink0
     = Ok \<lparr>directives =
             [(BODY_FORCE, ''A'', ''Current Density'', Num 5),
              (BODY_FORCE, ''B'', ''Current Density'', Num 5),
              (BODY_FORCE, ''C'', ''Current Density'', Num 5)],
           handledObjects = {''J''}\<rparr>
   \<and> handleMagnetodynamic2DBodyForces
       (writer0\<lparr>currentDensities := [source ''J1'' [(''Part'', [''A''])] 5, source ''J2'' [] 5]\<rparr>)
       [''A'', ''B'', ''C''] sink0
     = Raised AmbiguousSourceAssignmentError
         \<lparr>directives = [(BODY_FORCE, ''A'', ''Current Density'', Num 5)],
          handledObjects = {''J1''}\<rparr>"
proof -
  let ?w1 = "writer0\<lparr>currentDensities := [source ''J'' [] 5]\<rparr>"
  let ?w2 = "writer0\<lparr>currentDensities :=
    [source ''J1'' [(''Part'', [''A''])] 5, source ''J2'' [] 5]\<rparr>"
  have m1: "py_round (magnitude ?w1 (source ''J'' [] 5)) 10 = 5"
    by (simp add: magnitude_def writer0_def source_def py_round_five)
  have m2: "py_round (magnitude ?w2 (source ''J1'' [(''Part'', [''A''])] 5)) 10 = 5"
    by (simp add: magnitude_def writer0_def source_def py_round_five)
  have pre: "for_each [source ''J1'' [(''Part'', [''A''])] 5] (bodyForces_body ?w2 [''A'', ''B'', ''C''])
      sink0 = Ok \<lparr>directives = [(BODY_FORCE, ''A'', ''Current Density'', Num 5)],
                  handledObjects = {''J1''}\<rparr>"
    using m2
    by (simp add: bodyForces_body_def output_nonzero source_def emit_def handled_def sink0_def)
  have a: "handleMagnetodynamic2DBodyForces ?w1 [''A'', ''B'', ''C''] sink0
     = Ok \<lparr>directives =
             [(BODY_FORCE, ''A'', ''Current Density'', Num 5),
              (BODY_FORCE, ''B'', ''Current Density'', Num 5),
              (BODY_FORCE, ''C'', ''Current Density'', Num 5)],
           handledObjects = {''J''}\<rparr>"
    using unreferenced_current_density
        [of ?w1 "source ''J'' [] 5" "[''A'', ''B'', ''C'']" sink0 "[]" "[]" sink0] m1
    by (simp add: source_def emit_def handled_def sink0_def)
  have b: "handleMagnetodynamic2DBodyForces ?w2 [''A'', ''B'', ''C''] sink0
     = Raised AmbiguousSourceAssignmentError
         \<lparr>directives = [(BODY_FORCE, ''A'', ''Current Density'', Num 5)],
          handledObjects = {''J1''}\<rparr>"
    using unreferenced_current_density
        [of ?w2 "source ''J2'' [] 5" "[''A'', ''B'', ''C'']" sink0
          "[source ''J1'' [(''Part'', [''A''])] 5]" "[]"
          "\<lparr>directives = [(BODY_FORCE, ''A'', ''Current Density'', Num 5)],
            handledObjects = {''J1''}\<rparr>"] pre
    by (simp add: source_def)
  from a b show ?thesis by simp
qed


subsection \<open>Handled marks of the body-force resolver\<close>

lemma handled_twice: "handled obj (handled obj s) = handled obj s"
  by (simp add: handled_def)

lemma directives_handled: "directives (handled obj s) = directives s"
  by (simp add: handled_def)

lemma handledObjects_emit: "handledObjects (emit ds s) = handledObjects s"
  by (simp add: emit_def)

lemma handledObjects_output_all:
  "handledObjects (sink_of (for_each names (outputMagnetodynamic2DBodyForce w obj) s))
     = handledObjects s"
  by (simp add: output_all sink_of_def handledObjects_emit)

lemma output_all_cases:
  obtains (ok) s1 where "for_each names (outputMagnetodynamic2DBodyForce w obj) s = Ok s1"
      "handledObjects s1 = handledObjects s"
    | (raised) "for_each names (outputMagnetodynamic2DBodyForce w obj) s = Raised ZeroSourceError s"
  by (cases "names = [] \<or> py_round (magnitude w obj) 10 \<noteq> 0")
    (simp_all add: output_all handledObjects_emit)

lemma bodyForces_body_marks:
  assumes "bodyForces_body w bodies obj s = Ok s1"
  shows "handledObjects s1 = insert (Name obj) (handledObjects s)"
proof (cases "References obj")
  case Nil
  show ?thesis
  proof (cases rule: output_all_cases [of bodies w obj s])
    case (ok s2)
    with assms Nil show ?thesis
      by (auto simp: bodyForces_body_def handled_def split: if_splits)
  next
    case raised
    with assms Nil show ?thesis
      by (simp add: bodyForces_body_def split: if_splits)
  qed
next
  case (Cons r rs)
  show ?thesis
  proof (cases rule: output_all_cases [of "snd r" w obj s])
    case (ok s2)
    with assms Cons show ?thesis
      by (auto simp: bodyForces_body_def handled_def)
  next
    case raised
    with assms Cons show ?thesis
      by (simp add: bodyForces_body_def)
  qed
qed

lemma bodyForces_body_keeps:
  "handledObjects s \<subseteq> handledObjects (sink_of (bodyForces_body w bodies obj s))"
proof (cases "bodyForces_body w bodies obj s")
  case (Ok s1)
  then show ?thesis
    using bodyForces_body_marks [OF Ok] by (auto simp: sink_of_def)
next
  case (Raised e s1)
  have "s1 = s"
  proof (cases "References obj")
    case Nil
    with Raised show ?thesis
      by (auto simp: bodyForces_body_def and_then_Raised_iff output_all split: if_splits)
  next
    case (Cons r rs)
    with Raised show ?thesis
      by (auto simp: bodyForces_body_def and_then_Raised_iff output_all split: if_splits)
  qed
  with Raised show ?thesis by (simp add: sink_of_def)
qed

lemma bodyForces_loop_marks:
  "for_each objs (bodyForces_body w bodies) s = Ok s1 \<Longrightarrow>
   handledObjects s1 = handledObjects s \<union> Name ` set objs"
proof (induction objs arbitrary: s)
  case Nil
  then show ?case by simp
next
  case (Cons obj objs)
  from Cons.prems obtain s2 where step: "bodyForces_body w bodies obj s = Ok s2"
    and rest: "for_each objs (bodyForces_body w bodies) s2 = Ok s1"
    by (auto simp: and_then_Ok_iff)
  from Cons.IH [OF rest] bodyForces_body_marks [OF step] show ?case by auto
qed

text \<open>
  Claim C7. A current-density constraint whose loop body returns is in the set of handled
  objects afterwards, in the branch with references as in the broadcast branch; after a
  successful resolution the handled set has gained exactly the constraints of the model; and
  the constraints processed before a later one raises are still marked in the sink the
  resolver ends in. Marking an object a second time returns the same sink, with the same
  directive sequence.
\<close>

theorem current_density_marked_handled:
  fixes obj :: current_density
  shows "(bodyForces_body w bodies obj s = Ok s1 \<longrightarrow> Name obj \<in> handledObjects s1)
   \<and> (handleMagnetodynamic2DBodyForces w bodies s = Ok s2 \<longrightarrow>
        handledObjects s2 = handledObjects s \<union> Name ` set (currentDensities w))
   \<and> (currentDensities w = pre @ rest \<and> for_each pre (bodyForces_body w bodies) s = Ok s3 \<longrightarrow>
        Name ` set pre \<subseteq> handledObjects (sink_of (handleMagnetodynamic2DBodyForces w bodies s)))
   \<and> handled obj (handled obj s) = handled obj s
   \<and> directives (handled obj (handled obj s)) = directives s"
proof (intro conjI impI)
  assume "bodyForces_body w bodies obj s = Ok s1"
  from bodyForces_body_marks [OF this] show "Name obj \<in> handledObjects s1" by simp
next
  assume "handleMagnetodynamic2DBodyForces w bodies s = Ok s2"
  then have "for_each (currentDensities w) (bodyForces_body w bodies) s = Ok s2"
    by (simp add: handleMagnetodynamic2DBodyForces_def split: if_splits)
  then show "handledObjects s2 = handledObjects s \<union> Name ` set (currentDensities w)"
    by (rule bodyForces_loop_marks)
next
  assume a: "currentDensities w = pre @ rest \<and> for_each pre (bodyForces_body w bodies) s = Ok s3"
  show "Name ` set pre \<subseteq> handledObjects (sink_of (handleMagnetodynamic2DBodyForces w bodies s))"
  proof (cases "currentDensities w = []")
    case True
    with a show ?thesis by simp
  next
    case False
    with a have "handleMagnetodynamic2DBodyForces w bodies s =
        for_each rest (bodyForces_body w bodies) s3"
      by (simp add: handleMagnetodynamic2DBodyForces_def for_each_append)
    moreover have "Name ` set pre \<subseteq> handledObjects s3"
      using a bodyForces_loop_marks [of pre w bodies s s3] by simp
    moreover have "handledObjects s3 \<subseteq>
        handledObjects (sink_of (for_each rest (bodyForces_body w bodies) s3))"
      by (rule for_each_keeps) (rule bodyForces_body_keeps)
    ultimately show ?thesis by simp
  qed
next
  show "handled obj (handled obj s) = handled obj s"
    by (rule handled_twice)
next
  show "directives (handled obj (handled obj s)) = directives s"
    by (simp add: directives_handled)
qed

lemma source_fields:
  "Name (source name refs v) = name" "References (source name refs v) = refs"
  "CurrentDensity (source name refs v) = \<lparr>Value = v, Unit = ''A/m^2''\<rparr>"
  by (simp_all add: source_def)

theorem current_density_marked_handled_witness:
  "handleMagnetodynamic2DBodyForces
       (writer0\<lparr>currentDensities :=
          [source ''J1'' [(''Part'', [''A''])] 5, source ''J2'' [(''Part'', [''B''])] 5]\<rparr>)
       [''A'', ''B''] sink0
     = Ok \<lparr>directives =
             [(BODY_FORCE, ''A'', ''Current Density'', Num 5),
              (BODY_FORCE, ''B'', ''Current Density'', Num 5)],
           handledObjects = {''J1'', ''J2''}\<rparr>
   \<and> ''J'' \<in> handledObjects (sink_of (bodyForces_body
       (writer0\<lparr>currentDensities := [source ''J'' [] 5]\<rparr>) [''A'', ''B''] (source ''J'' [] 5) sink0))"
proof -
  let ?w2 = "writer0\<lparr>currentDensities :=
          [source ''J1'' [(''Part'', [''A''])] 5, source ''J2'' [(''Part'', [''B''])] 5]\<rparr>"
  let ?w1 = "writer0\<lparr>currentDensities := [source ''J'' [] 5]\<rparr>"
  have m: "py_round (magnitude w (source n refs 5)) 10 = 5"
    if "getFromUi w = (\<lambda>v unit dim. v)" "getValueAs w = (\<lambda>q unit. Value q)" for w n refs
    using that by (simp add: magnitude_def source_def py_round_five)
  have m1: "py_round (magnitude ?w1 (source n refs 5)) 10 = 5" for n refs
    by (rule m) (simp_all add: writer0_def)
  have m2: "py_round (magnitude ?w2 (source n refs 5)) 10 = 5" for n refs
    by (rule m) (simp_all add: writer0_def)
  have run2: "handleMagnetodynamic2DBodyForces ?w2 [''A'', ''B''] sink0
     = Ok \<lparr>directives =
             [(BODY_FORCE, ''A'', ''Current Density'', Num 5),
              (BODY_FORCE, ''B'', ''Current Density'', Num 5)],
           handledObjects = {''J1'', ''J2''}\<rparr>"
    by (simp add: handleMagnetodynamic2DBodyForces_def bodyForces_body_def output_nonzero m2
        source_fields emit_def handled_def sink0_def insert_commute)
  have run1: "bodyForces_body ?w1 [''A'', ''B''] (source ''J'' [] 5) sink0
     = Ok (handled (source ''J'' [] 5)
            (emit [(BODY_FORCE, ''A'', ''Current Density'', Num 5),
                   (BODY_FORCE, ''B'', ''Current Density'', Num 5)] sink0))"
    by (simp add: bodyForces_body_def output_nonzero m1 emit_emit source_fields)
  from current_density_marked_handled [of ?w1 "[''A'', ''B'']" "source ''J'' [] 5" sink0] run1
  have "Name (source ''J'' [] 5) \<in> handledObjects (sink_of (bodyForces_body ?w1 [''A'', ''B'']
      (source ''J'' [] 5) sink0))"
    by (simp add: sink_of_def)
  with run2 show ?thesis
    by (simp add: source_def)
qed


subsection \<open>Boundary conditions\<close>

lemma bndConditions_name_emit:
  "bndConditions_name w obj name s = Ok (emit (boundary_directives w obj name) s)"
  by (cases "Potential obj")
    (simp_all add: bndConditions_name_def boundary_directives_def write_boundary_def
      write_directive_emit emit_emit emit_Nil Let_def)

lemma bndConditions_names:
  "for_each names (bndConditions_name w obj) s =
     Ok (emit (concat (map (boundary_directives w obj) names)) s)"
  by (rule for_each_emit) (rule bndConditions_name_emit)

lemma bndConditions_body_closed:
  "bndConditions_body w obj s =
     Ok (if References obj = [] then s
         else handled obj (emit (concat (map (boundary_directives w obj) (reference_names obj))) s))"
  by (cases "References obj")
    (simp_all add: bndConditions_body_def reference_names_def bndConditions_names)

lemma bndConditions_loop:
  "for_each objs (bndConditions_body w) s =
     Ok \<lparr>directives = directives s @
            concat (map (\<lambda>obj. concat (map (boundary_directives w obj) (reference_names obj))) objs),
         handledObjects = handledObjects s \<union> Name ` {obj \<in> set objs. References obj \<noteq> []}\<rparr>"
    (is "_ = Ok (?result objs s)")
proof (induction objs arbitrary: s)
  case Nil
  show ?case by simp
next
  case (Cons obj objs)
  show ?case
  proof (cases "References obj = []")
    case True
    then have names: "reference_names obj = []"
      by (simp add: reference_names_def)
    have "for_each (obj # objs) (bndConditions_body w) s = for_each objs (bndConditions_body w) s"
      using True by (simp add: bndConditions_body_closed)
    also have "\<dots> = Ok (?result objs s)"
      by (rule Cons.IH)
    also have "{x \<in> set objs. References x \<noteq> []} = {x \<in> set (obj # objs). References x \<noteq> []}"
      using True by auto
    finally show ?thesis
      by (simp add: names)
  next
    case False
    let ?s1 = "handled obj (emit (concat (map (boundary_directives w obj) (reference_names obj))) s)"
    have sets: "insert (Name obj) (handledObjects s) \<union> Name ` {x \<in> set objs. References x \<noteq> []}
        = handledObjects s \<union> Name ` {x \<in> set (obj # objs). References x \<noteq> []}"
      using False by auto
    have "for_each (obj # objs) (bndConditions_body w) s = for_each objs (bndConditions_body w) ?s1"
      using False by (simp add: bndConditions_body_closed)
    also have "\<dots> = Ok (?result objs ?s1)"
      by (rule Cons.IH)
    also have "?result objs ?s1 = ?result (obj # objs) s"
      using sets by (simp add: emit_def handled_def)
    finally show ?thesis .
  qed
qed

text \<open>
  Claim C9. The boundary resolver never raises. A potential constraint without references is
  skipped: its loop body returns the sink unchanged, so nothing is written and it is not
  marked handled. A constraint with references is marked handled, and for each name of its
  reference, in order, the directives written under that name are: the label as
  \<open>! FreeCAD Name\<close> exactly when the label is non-empty, \<open>Potential\<close> (the value in volts)
  exactly when \<open>PotentialEnabled\<close> is set and the object has a potential, and \<open>Infinity BC\<close>
  = true exactly when \<open>ElectricInfinity\<close> is set; nothing else is written.
\<close>

theorem boundary_conditions_resolved:
  fixes obj :: potential
  shows "handleMagnetodynamic2DBndConditions w s =
     Ok \<lparr>directives = directives s @
            concat (map (\<lambda>obj. concat (map (boundary_directives w obj) (reference_names obj)))
                      (potentials w)),
         handledObjects = handledObjects s \<union> Name ` {obj \<in> set (potentials w). References obj \<noteq> []}\<rparr>
   \<and> (References obj = [] \<longrightarrow> reference_names obj = [] \<and> bndConditions_body w obj s = Ok s)
   \<and> (References obj = r # rs \<longrightarrow> reference_names obj = snd r)
   \<and> ((BOUNDARY_CONDITION, name, ''! FreeCAD Name'', v) \<in> set (boundary_directives w obj name)
        \<longleftrightarrow> Label obj \<noteq> [] \<and> v = Str (Label obj))
   \<and> ((BOUNDARY_CONDITION, name, ''Potential'', v) \<in> set (boundary_directives w obj name)
        \<longleftrightarrow> PotentialEnabled obj \<and> (\<exists>q. Potential obj = Some q \<and> v = Num (getValueAs w q ''V'')))
   \<and> ((BOUNDARY_CONDITION, name, ''Infinity BC'', v) \<in> set (boundary_directives w obj name)
        \<longleftrightarrow> ElectricInfinity obj \<and> v = Bool True)
   \<and> (\<forall>d \<in> set (boundary_directives w obj name).
        fst d = BOUNDARY_CONDITION \<and> fst (snd d) = name \<and>
        fst (snd (snd d)) \<in> {''! FreeCAD Name'', ''Potential'', ''Infinity BC''})"
proof -
  have loop: "handleMagnetodynamic2DBndConditions w s =
     Ok \<lparr>directives = directives s @
            concat (map (\<lambda>obj. concat (map (boundary_directives w obj) (reference_names obj)))
                      (potentials w)),
         handledObjects = handledObjects s \<union> Name ` {obj \<in> set (potentials w). References obj \<noteq> []}\<rparr>"
    unfolding handleMagnetodynamic2DBndConditions_def by (rule bndConditions_loop)
  have skipped: "References obj = [] \<longrightarrow> reference_names obj = [] \<and> bndConditions_body w obj s = Ok s"
    by (simp add: reference_names_def bndConditions_body_def)
  have names: "References obj = r # rs \<longrightarrow> reference_names obj = snd r"
    by (simp add: reference_names_def)
  have label: "(BOUNDARY_CONDITION, name, ''! FreeCAD Name'', v) \<in> set (boundary_directives w obj name)
        \<longleftrightarrow> Label obj \<noteq> [] \<and> v = Str (Label obj)"
    by (cases "Potential obj") (auto simp: boundary_directives_def)
  have potential: "(BOUNDARY_CONDITION, name, ''Potential'', v) \<in> set (boundary_directives w obj name)
        \<longleftrightarrow> PotentialEnabled obj \<and> (\<exists>q. Potential obj = Some q \<and> v = Num (getValueAs w q ''V''))"
    by (cases "Potential obj") (auto simp: boundary_directives_def)
  have infinity: "(BOUNDARY_CONDITION, name, ''Infinity BC'', v) \<in> set (boundary_directives w obj name)
        \<longleftrightarrow> ElectricInfinity obj \<and> v = Bool True"
    by (cases "Potential obj") (auto simp: boundary_directives_def)
  have keys: "\<forall>d \<in> set (boundary_directives w obj name).
        fst d = BOUNDARY_CONDITION \<and> fst (snd d) = name \<and>
        fst (snd (snd d)) \<in> {''! FreeCAD Name'', ''Potential'', ''Infinity BC''}"
    by (cases "Potential obj") (auto simp: boundary_directives_def)
  from loop skipped names label potential infinity keys show ?thesis
    by (intro conjI)
qed

theorem boundary_conditions_resolved_witness:
  "handleMagnetodynamic2DBndConditions (writer0\<lparr>potentials := [farfield, electrode]\<rparr>) sink0
     = Ok \<lparr>directives =
             [(BOUNDARY_CONDITION, ''Edge1'', ''! FreeCAD Name'', Str ''Electrode''),
              (BOUNDARY_CONDITION, ''Edge1'', ''Potential'', Num 12),
              (BOUNDARY_CONDITION, ''Edge1'', ''Infinity BC'', Bool True),
              (BOUNDARY_CONDITION, ''Edge2'', ''! FreeCAD Name'', Str ''Electrode''),
              (BOUNDARY_CONDITION, ''Edge2'', ''Potential'', Num 12),
              (BOUNDARY_CONDITION, ''Edge2'', ''Infinity BC'', Bool True)],
           handledObjects = {''Potential''}\<rparr>
   \<and> bndConditions_body (writer0\<lparr>potentials := [farfield, electrode]\<rparr>) farfield sink0 = Ok sink0"
proof -
  let ?w = "writer0\<lparr>potentials := [farfield, electrode]\<rparr>"
  have "References farfield = []"
    by (simp add: farfield_def)
  moreover have "{obj \<in> set (potentials ?w). References obj \<noteq> []} = {electrode}"
    by (auto simp: farfield_def electrode_def)
  ultimately show ?thesis
    using boundary_conditions_resolved [of ?w sink0 farfield]
    by (simp add: reference_names_def boundary_directives_def writer0_def farfield_def
        electrode_def sink0_def)
qed

subsection \<open>The equation emitter\<close>

lemma equation_body_zero:
  "IsHarmonic equation \<Longrightarrow> Value (AngularFrequency equation) = 0 \<Longrightarrow>
   equation_body equation b s = Raised ZeroFrequencyError s"
  by (simp add: equation_body_def)


lemma equation_loop_zero:
  "IsHarmonic equation \<Longrightarrow> Value (AngularFrequency equation) = 0 \<Longrightarrow> bodies \<noteq> [] \<Longrightarrow>
   handleMagnetodynamic2DEquation bodies equation s = Raised ZeroFrequencyError s"
  by (cases bodies) (simp_all add: handleMagnetodynamic2DEquation_def equation_body_zero)




text \<open>
  Claim C10. For a harmonic equation with angular frequency zero and a non-empty sequence of
  bodies, the emitter raises at the first body: the loop body raises for every body alike, the
  outcome is the zero-frequency error, and the sink it ends in is the sink it started from,
  so no Equation directive has been written.
\<close>

theorem equation_zero_frequency_atomic:
  assumes "IsHarmonic equation" and "Value (AngularFrequency equation) = 0" and "bodies \<noteq> []"
  shows "handleMagnetodynamic2DEquation bodies equation s = Raised ZeroFrequencyError s
    \<and> sink_of (handleMagnetodynamic2DEquation bodies equation s) = s
    \<and> directives (sink_of (handleMagnetodynamic2DEquation bodies equation s)) = directives s
    \<and> (\<forall>b. equation_body equation b s = Raised ZeroFrequencyError s)"
  using assms by (simp add: equation_loop_zero equation_body_zero sink_of_def)

theorem equation_zero_frequency_atomic_witness:
  "IsHarmonic (equation0 True 0) \<and> Value (AngularFrequency (equation0 True 0)) = 0
   \<and> [''A'', ''B'', ''C''] \<noteq> []
   \<and> handleMagnetodynamic2DEquation [''A'', ''B'', ''C''] (equation0 True 0) sink0
       = Raised ZeroFrequencyError sink0
   \<and> sink_of (handleMagnetodynamic2DEquation [''A'', ''B'', ''C''] (equation0 True 0) sink0)
       = sink0"
proof -
  have h: "IsHarmonic (equation0 True 0)" "Value (AngularFrequency (equation0 True 0)) = 0"
    "[''A'', ''B'', ''C''] \<noteq> []"
    by (simp_all add: equation0_def)
  from equation_zero_frequency_atomic [OF h, of sink0] h show ?thesis by blast
qed

end
